theory Spec2Isabelle
  imports Main
begin

section \<open>Python strings\<close>

text \<open>
  A Python \<open>str\<close> is a sequence of Unicode code points. A code point is a natural
  number and a string a list of them; \<open>py\<close> reads an ASCII literal as such a string.

  The string methods the game calls (\<open>strip\<close>, \<open>isalpha\<close>, \<open>upper\<close>, \<open>lower\<close>,
  \<open>split\<close>, \<open>int\<close>) are builtins of the interpreter. On the ASCII range their
  behaviour is written out below. Beyond it they follow the Unicode character
  database, which is no part of the repository: it is a parameter, the record
  \<open>env\<close>, together with the dictionary of the \<open>spellchecker\<close> package behind the
  module-level \<open>spell\<close>. Every theorem holds for every such parameter.
\<close>

type_synonym pystr = "nat list"

definition py :: "string \<Rightarrow> pystr" where
  "py s = map of_char s"

record env =
  u_isspace :: "nat \<Rightarrow> bool"        \<comment> \<open>whitespace among the code points from 128 on\<close>
  u_isalpha :: "nat \<Rightarrow> bool"        \<comment> \<open>alphabetic among the code points from 128 on\<close>
  u_decimal :: "nat \<Rightarrow> nat option"  \<comment> \<open>decimal digit value of a code point from 128 on\<close>
  u_upper :: "pystr \<Rightarrow> pystr"       \<comment> \<open>\<open>str.upper\<close> on a string that is not pure ASCII\<close>
  u_lower :: "pystr \<Rightarrow> pystr"       \<comment> \<open>\<open>str.lower\<close> on a string that is not pure ASCII\<close>
  spell :: "pystr \<Rightarrow> bool"          \<comment> \<open>\<open>key in spell\<close>\<close>

definition is_ascii :: "pystr \<Rightarrow> bool" where
  "is_ascii w = (\<forall>c \<in> set w. c < 128)"

definition ascii_isspace :: "nat \<Rightarrow> bool" where
  "ascii_isspace c = ((9 \<le> c \<and> c \<le> 13) \<or> (28 \<le> c \<and> c \<le> 32))"

definition ascii_isupper :: "nat \<Rightarrow> bool" where
  "ascii_isupper c = (65 \<le> c \<and> c \<le> 90)"

definition ascii_islower :: "nat \<Rightarrow> bool" where
  "ascii_islower c = (97 \<le> c \<and> c \<le> 122)"

definition ascii_isalpha :: "nat \<Rightarrow> bool" where
  "ascii_isalpha c = (ascii_isupper c \<or> ascii_islower c)"

definition ascii_upper :: "nat \<Rightarrow> nat" where
  "ascii_upper c = (if ascii_islower c then c - 32 else c)"

definition ascii_lower :: "nat \<Rightarrow> nat" where
  "ascii_lower c = (if ascii_isupper c then c + 32 else c)"

definition char_isspace :: "env \<Rightarrow> nat \<Rightarrow> bool" where
  "char_isspace E c = (if c < 128 then ascii_isspace c else u_isspace E c)"

definition char_isalpha :: "env \<Rightarrow> nat \<Rightarrow> bool" where
  "char_isalpha E c = (if c < 128 then ascii_isalpha c else u_isalpha E c)"

text \<open>\<open>s.isalpha()\<close>: at least one character, and every character alphabetic.\<close>

definition str_isalpha :: "env \<Rightarrow> pystr \<Rightarrow> bool" where
  "str_isalpha E w = (w \<noteq> [] \<and> (\<forall>c \<in> set w. char_isalpha E c))"

definition str_upper :: "env \<Rightarrow> pystr \<Rightarrow> pystr" where
  "str_upper E w = (if is_ascii w then map ascii_upper w else u_upper E w)"

definition str_lower :: "env \<Rightarrow> pystr \<Rightarrow> pystr" where
  "str_lower E w = (if is_ascii w then map ascii_lower w else u_lower E w)"

text \<open>\<open>s.strip()\<close>: leading and trailing whitespace removed.\<close>

definition str_lstrip :: "env \<Rightarrow> pystr \<Rightarrow> pystr" where
  "str_lstrip E w = dropWhile (char_isspace E) w"

definition str_strip :: "env \<Rightarrow> pystr \<Rightarrow> pystr" where
  "str_strip E w = rev (str_lstrip E (rev (str_lstrip E w)))"

section \<open>Scoring (module-level functions)\<close>

text \<open>The dictionary literal \<open>letter_values\<close> of \<open>calculate_score\<close>, in source order.\<close>

definition letter_values :: "(pystr \<times> int) list" where
  "letter_values =
    [(py ''A'', 1), (py ''E'', 1), (py ''I'', 1), (py ''O'', 1), (py ''U'', 1),
     (py ''L'', 1), (py ''N'', 1), (py ''R'', 1), (py ''S'', 1), (py ''T'', 1),
     (py ''D'', 2), (py ''G'', 2),
     (py ''B'', 3), (py ''C'', 3), (py ''M'', 3), (py ''P'', 3),
     (py ''F'', 4), (py ''H'', 4), (py ''V'', 4), (py ''W'', 4), (py ''Y'', 4),
     (py ''K'', 5),
     (py ''J'', 8), (py ''X'', 8),
     (py ''Q'', 10), (py ''Z'', 10)]"

text \<open>\<open>d.get(k, default)\<close> on a dictionary given by its items.\<close>

definition dict_get :: "('k \<times> 'v) list \<Rightarrow> 'k \<Rightarrow> 'v \<Rightarrow> 'v" where
  "dict_get d k dflt = (case map_of d k of None \<Rightarrow> dflt | Some v \<Rightarrow> v)"

definition calculate_score :: "env \<Rightarrow> pystr \<Rightarrow> int" where
  "calculate_score E word =
     sum_list (map (\<lambda>letter. dict_get letter_values (str_upper E [letter]) 0) word)"

definition is_valid_word :: "env \<Rightarrow> pystr \<Rightarrow> bool" where
  "is_valid_word E word = spell E (str_lower E word)"

definition calculate_time_bonus :: "int \<Rightarrow> int" where
  "calculate_time_bonus elapsed_time =
     (if elapsed_time \<le> 5 then 20
      else if elapsed_time \<le> 10 then 10
      else if elapsed_time \<le> 15 then 5
      else 0)"

section \<open>Numbers in text\<close>

text \<open>
  \<open>str(n)\<close>, as the f-strings of the game format their integers: decimal digits,
  with a minus sign for a negative number.
\<close>

fun nat_str :: "nat \<Rightarrow> pystr" where
  "nat_str n = (if n < 10 then [48 + n] else nat_str (n div 10) @ [48 + n mod 10])"

declare nat_str.simps [simp del]

definition int_str :: "int \<Rightarrow> pystr" where
  "int_str i = (if i < 0 then 45 # nat_str (nat (- i)) else nat_str (nat i))"

text \<open>\<open>str(x)\<close> of an attribute that holds an integer or \<open>None\<close>.\<close>

definition opt_int_str :: "int option \<Rightarrow> pystr" where
  "opt_int_str x = (case x of None \<Rightarrow> py ''None'' | Some i \<Rightarrow> int_str i)"

text \<open>
  \<open>s.split()\<close>: the maximal runs of non-whitespace characters, in order. The scan
  keeps the run it is reading in \<open>tok\<close>.
\<close>

fun split_acc :: "env \<Rightarrow> pystr \<Rightarrow> pystr \<Rightarrow> pystr list" where
  "split_acc E tok [] = (if tok = [] then [] else [tok])"
| "split_acc E tok (c # cs) =
     (if char_isspace E c
      then (if tok = [] then split_acc E [] cs else tok # split_acc E [] cs)
      else split_acc E (tok @ [c]) cs)"

definition str_split :: "env \<Rightarrow> pystr \<Rightarrow> pystr list" where
  "str_split E w = split_acc E [] w"

datatype error = IndexError | ValueError

definition char_decimal :: "env \<Rightarrow> nat \<Rightarrow> nat option" where
  "char_decimal E c =
     (if c < 128 then (if 48 \<le> c \<and> c \<le> 57 then Some (c - 48) else None)
      else u_decimal E c)"

text \<open>
  The digits of an integer literal as \<open>int(x)\<close> reads them: at least one digit, and an
  underscore (code 95) only between two digits. \<open>prev\<close> says that the character
  before was a digit.
\<close>

fun digits_val :: "env \<Rightarrow> nat \<Rightarrow> bool \<Rightarrow> pystr \<Rightarrow> nat option" where
  "digits_val E acc prev [] = (if prev then Some acc else None)"
| "digits_val E acc prev (c # cs) =
     (if c = 95 then (if prev then digits_val E acc False cs else None)
      else (case char_decimal E c of
              None \<Rightarrow> None
            | Some d \<Rightarrow> digits_val E (10 * acc + d) True cs))"

text \<open>
  \<open>int(x)\<close> on a string without whitespace (a piece of \<open>split()\<close> has none, so the
  stripping \<open>int\<close> does first has nothing to remove): an optional sign (\<open>-\<close> is 45,
  \<open>+\<close> is 43), then the digits; anything else raises \<open>ValueError\<close>. The interpreter's
  configurable cap on the number of digits of such a conversion is a setting outside the
  program and is left out, here and in \<open>int_str\<close>.
\<close>

definition py_int :: "env \<Rightarrow> pystr \<Rightarrow> error + int" where
  "py_int E x =
     (case x of
        [] \<Rightarrow> Inl ValueError
      | c # r \<Rightarrow>
          if c = 45 then
            (case digits_val E 0 False r of None \<Rightarrow> Inl ValueError | Some n \<Rightarrow> Inr (- int n))
          else if c = 43 then
            (case digits_val E 0 False r of None \<Rightarrow> Inl ValueError | Some n \<Rightarrow> Inr (int n))
          else
            (case digits_val E 0 False x of None \<Rightarrow> Inl ValueError | Some n \<Rightarrow> Inr (int n)))"

text \<open>
  \<open>int(text.split()[2])\<close>, the expression \<open>check_word\<close> applies to the text of the timer
  label: \<open>IndexError\<close> when the text has fewer than three pieces.
\<close>

definition label_remaining :: "env \<Rightarrow> pystr \<Rightarrow> error + int" where
  "label_remaining E text =
     (let parts = str_split E text
      in if length parts \<le> 2 then Inl IndexError else py_int E (parts ! 2))"

section \<open>The game object\<close>

text \<open>
  The attributes of a \<open>ScrabbleGame\<close>. A widget is the text it shows (the warning label
  also its colour). \<open>after_queue\<close> holds the callbacks registered with \<open>root.after\<close> that
  have not run yet, \<open>packed\<close> says that the widgets of the game are on screen, and
  \<open>final_score_label\<close> is the text of the end screen's label while one is on screen
  (\<open>pack_forget\<close> on every child of the root takes both off the screen). The two
  buttons have no state and are left out.

  The timer thread is where it stands in \<open>countdown_timer\<close>: \<open>Iter n\<close> before the loop
  iteration with \<open>remaining = n\<close>, \<open>Post\<close> after the loop and before the test that
  follows it, \<open>Finished\<close> once the function has returned.
\<close>

datatype thread = Iter nat | Post | Finished

datatype callback = Start_Round | Set_Timer_Text nat

datatype colour = Red | Green

record game =
  required_length :: "int option"
  total_score :: int
  current_round :: int
  max_rounds :: int
  timer_running :: bool
  stop_event :: bool
  timer_thread :: "thread option"
  round_label :: pystr
  score_label :: pystr
  timer_label :: pystr
  required_length_label :: pystr
  warning_text :: pystr
  warning_fg :: colour
  entry :: pystr
  packed :: bool
  final_score_label :: "pystr option"
  after_queue :: "(nat \<times> callback) list"

definition root_after :: "nat \<Rightarrow> callback \<Rightarrow> game \<Rightarrow> game" where
  "root_after ms cb s = s\<lparr>after_queue := after_queue s @ [(ms, cb)]\<rparr>"

definition timer_text :: "nat \<Rightarrow> pystr" where
  "timer_text remaining = py ''Time remaining: '' @ nat_str remaining @ py '' seconds''"

definition update_timer_display :: "nat \<Rightarrow> game \<Rightarrow> game" where
  "update_timer_display remaining s = root_after 0 (Set_Timer_Text remaining) s"

definition show_warning :: "pystr \<Rightarrow> game \<Rightarrow> game" where
  "show_warning message s = s\<lparr>warning_text := message, warning_fg := Red\<rparr>"

definition show_score :: "int \<Rightarrow> int \<Rightarrow> game \<Rightarrow> game" where
  "show_score base_score time_bonus s =
     root_after 2000 Start_Round
       (s\<lparr>warning_text :=
             py ''Score: '' @ int_str base_score @ py '' (Bonus: '' @ int_str time_bonus @ py '')'',
          warning_fg := Green\<rparr>)"

definition show_end_game_screen :: "game \<Rightarrow> game" where
  "show_end_game_screen s =
     s\<lparr>packed := False,
       final_score_label := Some (py ''Total Score: '' @ int_str (total_score s))\<rparr>"

subsection \<open>The timer\<close>

text \<open>
  One step of the thread that runs \<open>countdown_timer\<close>: a whole loop iteration (the test
  of the stop event, the display update, the second of sleep), or the code after the
  loop. The main thread runs between two such steps: the model interleaves the two
  threads at this grain and has no clock, so the delay of a callback is only recorded.
\<close>

definition countdown_step :: "game \<Rightarrow> game" where
  "countdown_step s =
     (case timer_thread s of
        Some (Iter remaining) \<Rightarrow>
          if stop_event s then s\<lparr>timer_thread := Some Post\<rparr>
          else (update_timer_display remaining s)
                 \<lparr>timer_thread := Some (if remaining \<le> 1 then Post else Iter (remaining - 1))\<rparr>
      | Some Post \<Rightarrow>
          if \<not> stop_event s then
            (root_after 1000 Start_Round
               ((update_timer_display 0 s)\<lparr>warning_text := py ''Time's up!''\<rparr>))
              \<lparr>timer_thread := Some Finished\<rparr>
          else s\<lparr>timer_thread := Some Finished\<rparr>
      | _ \<Rightarrow> s)"

text \<open>How many steps the thread still has at most.\<close>

fun steps_left :: "thread option \<Rightarrow> nat" where
  "steps_left (Some (Iter n)) = n + 2"
| "steps_left (Some Post) = 1"
| "steps_left _ = 0"

text \<open>\<open>timer_thread.join()\<close>: the thread runs until \<open>countdown_timer\<close> has returned.\<close>

function thread_join :: "game \<Rightarrow> game" where
  "thread_join s =
     (if steps_left (timer_thread s) = 0 then s else thread_join (countdown_step s))"
  by pat_completeness auto

termination
proof (relation "measure (\<lambda>s. steps_left (timer_thread s))")
  show "wf (measure (\<lambda>s. steps_left (timer_thread s)))"
    by simp
next
  fix s :: game
  assume "steps_left (timer_thread s) \<noteq> 0"
  then show "(countdown_step s, s) \<in> measure (\<lambda>s. steps_left (timer_thread s))"
    by (cases "timer_thread s" rule: steps_left.cases)
       (simp_all add: countdown_step_def update_timer_display_def root_after_def)
qed

declare thread_join.simps [simp del]

definition start_timer :: "game \<Rightarrow> game" where
  "start_timer s =
     (let s1 = (if timer_running s \<and> timer_thread s \<noteq> None
                then thread_join (s\<lparr>stop_event := True\<rparr>)
                else s)
      in s1\<lparr>stop_event := False, timer_running := True, timer_thread := Some (Iter 15)\<rparr>)"

subsection \<open>Rounds\<close>

text \<open>
  \<open>start_round\<close> draws the required length with \<open>random.randint(3, 7)\<close>; the number drawn
  is the argument \<open>drawn\<close>.
\<close>

definition round_text :: "int \<Rightarrow> int \<Rightarrow> pystr" where
  "round_text n m = py ''Round: '' @ int_str n @ py ''/'' @ int_str m"

definition start_round :: "int \<Rightarrow> game \<Rightarrow> game" where
  "start_round drawn s =
     (if current_round s < max_rounds s then
        start_timer
          (s\<lparr>current_round := current_round s + 1,
             round_label := round_text (current_round s + 1) (max_rounds s),
             required_length := Some drawn,
             entry := [],
             required_length_label :=
               py ''Enter a word with exactly '' @ int_str drawn @ py '' letters'',
             warning_text := []\<rparr>)
      else show_end_game_screen s)"

text \<open>
  \<open>setup_gui\<close> makes the widgets anew, each with its first text, packs them, and ends
  with a call of \<open>start_round\<close>.
\<close>

definition setup_gui :: "int \<Rightarrow> game \<Rightarrow> game" where
  "setup_gui drawn s =
     start_round drawn
       (s\<lparr>round_label := round_text (current_round s + 1) (max_rounds s),
          score_label := py ''Score: '' @ int_str (total_score s),
          timer_label := py ''Time remaining: 15 seconds'',
          required_length_label := py ''Enter a word with exactly X letters'',
          warning_text := [],
          warning_fg := Red,
          entry := [],
          packed := True\<rparr>)"

text \<open>
  \<open>ScrabbleGame(root)\<close>: the attributes \<open>__init__\<close> sets, then \<open>setup_gui\<close>. The
  widgets do not exist before \<open>setup_gui\<close> makes them; their fields start empty.
\<close>

definition new_game :: "int \<Rightarrow> game" where
  "new_game drawn =
     setup_gui drawn
       \<lparr>required_length = None, total_score = 0, current_round = 0, max_rounds = 10,
        timer_running = False, stop_event = False, timer_thread = None,
        round_label = [], score_label = [], timer_label = [], required_length_label = [],
        warning_text = [], warning_fg = Red, entry = [], packed = False,
        final_score_label = None, after_queue = []\<rparr>"

text \<open>
  \<open>check_word\<close>, the command of the Submit button. An exception raised by the reading of
  the timer label leaves the method before anything was assigned.
\<close>

definition check_word :: "env \<Rightarrow> game \<Rightarrow> error + game" where
  "check_word E s =
     (if \<not> timer_running s then Inr s
      else
        let user_input = str_strip E (entry s) in
        if \<not> str_isalpha E user_input then
          Inr (show_warning (py ''Please enter only alphabetic characters.'') s)
        else if Some (int (length user_input)) \<noteq> required_length s then
          Inr (show_warning
                 (py ''Word must be exactly '' @ opt_int_str (required_length s)
                    @ py '' letters long.'') s)
        else if \<not> is_valid_word E user_input then
          Inr (show_warning (py ''The word is not in the dictionary.'') s)
        else
          (case label_remaining E (timer_label s) of
             Inl e \<Rightarrow> Inl e
           | Inr remaining \<Rightarrow>
               let elapsed_time = 15 - remaining;
                   base_score = calculate_score E user_input;
                   time_bonus = calculate_time_bonus elapsed_time;
                   round_score = base_score + time_bonus;
                   s1 = s\<lparr>total_score := total_score s + round_score\<rparr>;
                   s2 = s1\<lparr>score_label := py ''Score: '' @ int_str (total_score s1)\<rparr>;
                   s3 = s2\<lparr>warning_text := []\<rparr>
               in Inr (show_score base_score time_bonus s3)))"

text \<open>
  \<open>reset_game\<close>: the scores are zeroed and every widget unpacked; \<open>setup_gui\<close> draws a
  length in the \<open>start_round\<close> it ends with, and the \<open>start_round\<close> after it draws
  another.
\<close>

definition reset_game :: "int \<Rightarrow> int \<Rightarrow> game \<Rightarrow> game" where
  "reset_game drawn1 drawn2 s =
     start_round drawn2
       (setup_gui drawn1
          (s\<lparr>total_score := 0, current_round := 0, packed := False, final_score_label := None\<rparr>))"

subsection \<open>The main loop\<close>

text \<open>
  The Tk main loop runs a registered callback: the one at position \<open>i\<close> of the queue
  leaves the queue and runs. What it does is read when it runs, so a callback of
  \<open>update_timer_display\<close> writes to the timer label the game has then.
\<close>

definition run_callback :: "int \<Rightarrow> callback \<Rightarrow> game \<Rightarrow> game" where
  "run_callback drawn cb s =
     (case cb of
        Start_Round \<Rightarrow> start_round drawn s
      | Set_Timer_Text remaining \<Rightarrow> s\<lparr>timer_label := timer_text remaining\<rparr>)"

definition run_after :: "nat \<Rightarrow> int \<Rightarrow> game \<Rightarrow> game" where
  "run_after i drawn s =
     (if i < length (after_queue s)
      then run_callback drawn (snd (after_queue s ! i))
             (s\<lparr>after_queue := take i (after_queue s) @ drop (Suc i) (after_queue s)\<rparr>)
      else s)"

section \<open>Sample runs\<close>

text \<open>
  An instance of the parameters: nothing beyond ASCII is whitespace, a letter or a
  digit, and the dictionary knows the word \<open>cabbage\<close>, the known word of the unit tests.
\<close>

definition test_env :: env where
  "test_env =
     \<lparr>u_isspace = (\<lambda>c. False), u_isalpha = (\<lambda>c. False), u_decimal = (\<lambda>c. None),
      u_upper = (\<lambda>w. w), u_lower = (\<lambda>w. w), spell = (\<lambda>w. w = py ''cabbage'')\<rparr>"

text \<open>
  A second of the countdown as the player sees it: the timer thread makes a step, and
  the main loop runs the first callback that step registered (the display update, which
  draws no length: the 0 is not used).
\<close>

definition tick :: "game \<Rightarrow> game" where
  "tick s = run_after (length (after_queue s)) 0 (countdown_step s)"

text \<open>A fresh game in which nothing is submitted until the countdown has run out.\<close>

definition expired_game :: game where
  "expired_game = (tick ^^ 16) (new_game 7)"

text \<open>
  The player types \<open>w\<close> and presses Submit (Tk reports an exception of the command and
  goes on); then the main loop runs the callback registered last.
\<close>

definition submit :: "env \<Rightarrow> pystr \<Rightarrow> game \<Rightarrow> game" where
  "submit E w s = (case check_word E (s\<lparr>entry := w\<rparr>) of Inl e \<Rightarrow> s\<lparr>entry := w\<rparr> | Inr s' \<Rightarrow> s')"

definition next_round :: "int \<Rightarrow> game \<Rightarrow> game" where
  "next_round drawn s = run_after (length (after_queue s) - 1) drawn s"

text \<open>
  A fresh game in which the countdown has come down to 2 seconds on the label, and that
  game once \<open>cabbage\<close> has been submitted then.
\<close>

definition late_game :: game where
  "late_game = (tick ^^ 14) (new_game 7)"

definition late_win :: game where
  "late_win = submit test_env (py ''cabbage'') late_game"

text \<open>Ten rounds, each won with \<open>cabbage\<close>, up to the end screen.\<close>

definition game_over_game :: game where
  "game_over_game = ((\<lambda>s. next_round 7 (submit test_env (py ''cabbage'') s)) ^^ 10) (new_game 7)"

section \<open>Letter values and scores\<close>

lemma is_ascii_alpha: "\<forall>c \<in> set w. ascii_isalpha c \<Longrightarrow> is_ascii w"
  by (auto simp: is_ascii_def ascii_isalpha_def ascii_isupper_def ascii_islower_def)

lemma ascii_upper_lt: "c < 128 \<Longrightarrow> ascii_upper c < 128"
  by (auto simp: ascii_upper_def)

lemma ascii_lower_lt: "ascii_isalpha c \<Longrightarrow> ascii_lower c < 128"
  by (auto simp: ascii_lower_def ascii_isalpha_def ascii_isupper_def ascii_islower_def)

lemma str_upper_single: "c < 128 \<Longrightarrow> str_upper E [c] = [ascii_upper c]"
  by (simp add: str_upper_def is_ascii_def)

lemma ascii_upper_idem: "ascii_upper (ascii_upper c) = ascii_upper c"
  by (auto simp: ascii_upper_def ascii_islower_def)

lemma ascii_upper_lower: "ascii_isalpha c \<Longrightarrow> ascii_upper (ascii_lower c) = ascii_upper c"
  by (auto simp: ascii_upper_def ascii_lower_def ascii_isalpha_def ascii_isupper_def ascii_islower_def)

lemma letter_values_keys:
  "map_of letter_values k = Some v \<Longrightarrow> 1 \<le> v \<and> v \<le> 10 \<and> (\<exists>c. k = [c] \<and> ascii_isupper c)"
  by (auto simp add: letter_values_def py_def ascii_isupper_def split: if_splits)

lemma letter_values_total: "ascii_isupper c \<Longrightarrow> \<exists>v. map_of letter_values [c] = Some v"
  unfolding ascii_isupper_def letter_values_def py_def
  apply simp
  by presburger

lemma calculate_score_Nil: "calculate_score E [] = 0"
  by (simp add: calculate_score_def)

lemma calculate_score_Cons: "calculate_score E (c # w) = calculate_score E [c] + calculate_score E w"
  by (simp add: calculate_score_def)

lemma calculate_score_chars: "calculate_score E word = (\<Sum>c\<leftarrow>word. calculate_score E [c])"
proof (induction word)
  case Nil
  show ?case by (simp add: calculate_score_Nil)
next
  case (Cons c w)
  then show ?case using calculate_score_Cons[of E c w] by simp
qed

lemma score_upper_char:
  assumes "c < 128"
  shows "calculate_score E [ascii_upper c] = calculate_score E [c]"
  using assms by (simp add: calculate_score_def str_upper_single ascii_upper_lt ascii_upper_idem)

lemma score_lower_char:
  assumes "ascii_isalpha c"
  shows "calculate_score E [ascii_lower c] = calculate_score E [c]"
proof -
  have "c < 128" using assms by (auto simp: ascii_isalpha_def ascii_isupper_def ascii_islower_def)
  then show ?thesis
   using assms by (simp add: calculate_score_def str_upper_single ascii_lower_lt ascii_upper_lower)
qed

lemma score_map_upper: "is_ascii w \<Longrightarrow> calculate_score E (map ascii_upper w) = calculate_score E w"
proof (induction w)
  case Nil
  then show ?case by simp
next
  case (Cons c w)
  then have "c < 128" "is_ascii w" by (simp_all add: is_ascii_def)
  with Cons.IH show ?case
    using calculate_score_Cons[of E "ascii_upper c" "map ascii_upper w"] calculate_score_Cons[of E c w]
    by (simp add: score_upper_char)
qed

lemma score_map_lower: "\<forall>c \<in> set w. ascii_isalpha c \<Longrightarrow> calculate_score E (map ascii_lower w) = calculate_score E w"
proof (induction w)
  case Nil
  then show ?case by simp
next
  case (Cons c w)
  then show ?case
    using calculate_score_Cons[of E "ascii_lower c" "map ascii_lower w"] calculate_score_Cons[of E c w]
    by (simp add: score_lower_char)
qed

lemma score_nonletter: "c < 128 \<Longrightarrow> \<not> ascii_isalpha c \<Longrightarrow> calculate_score E [c] = 0"
  apply (simp add: calculate_score_def str_upper_single dict_get_def split: option.splits)
  apply (auto dest!: letter_values_keys simp: ascii_upper_def ascii_isalpha_def)
  done

lemma score_letter: "ascii_isalpha c \<Longrightarrow> 1 \<le> calculate_score E [c] \<and> calculate_score E [c] \<le> 10"
proof -
  assume a: "ascii_isalpha c"
  then have lt: "c < 128" by (auto simp: ascii_isalpha_def ascii_isupper_def ascii_islower_def)
  from a have "ascii_isupper (ascii_upper c)"
    by (auto simp: ascii_isalpha_def ascii_isupper_def ascii_islower_def ascii_upper_def)
  then obtain v where v: "map_of letter_values [ascii_upper c] = Some v"
    using letter_values_total by blast
  with letter_values_keys[OF v] lt show ?thesis
    by (simp add: calculate_score_def str_upper_single dict_get_def)
qed

lemma dict_get_letter_values_other:
  "\<not> (\<exists>l. k = [l] \<and> ascii_isupper l) \<Longrightarrow> dict_get letter_values k 0 = 0"
  using letter_values_keys[of k] by (auto simp: dict_get_def split: option.splits)

lemma dict_get_letter_values_range:
  "ascii_isupper l \<Longrightarrow> 1 \<le> dict_get letter_values [l] 0 \<and> dict_get letter_values [l] 0 \<le> 10"
  using letter_values_total[of l] letter_values_keys[of "[l]"] by (auto simp: dict_get_def)

lemma score_apple: "calculate_score E (py ''apple'') = 9"
  by (simp add: calculate_score_def py_def str_upper_def is_ascii_def ascii_upper_def
        ascii_islower_def dict_get_def letter_values_def)

lemma score_orange: "calculate_score E (py ''orange'') = 7"
  by (simp add: calculate_score_def py_def str_upper_def is_ascii_def ascii_upper_def
        ascii_islower_def dict_get_def letter_values_def)

lemma score_cabbage: "calculate_score E (py ''cabbage'') = 14"
  by (simp add: calculate_score_def py_def str_upper_def is_ascii_def ascii_upper_def
        ascii_islower_def dict_get_def letter_values_def)

section \<open>Numbers in text, read back\<close>

lemma nat_str_digits: "c \<in> set (nat_str n) \<Longrightarrow> 48 \<le> c \<and> c \<le> 57"
proof (induction n arbitrary: c rule: nat_str.induct)
  case (1 n)
  show ?case
  proof (cases "n < 10")
    case True
    with "1.prems" show ?thesis by (simp add: nat_str.simps[of n])
  next
    case False
    have "n mod 10 < 10" by simp
    then have "48 + n mod 10 \<le> 57" by linarith
    with False "1.prems" "1.IH" show ?thesis
      by (auto simp add: nat_str.simps[of n])
  qed
qed

lemma nat_str_nonempty: "nat_str n \<noteq> []"
  by (simp add: nat_str.simps[of n])

lemma digits_val_append:
  "\<forall>c \<in> set ds. 48 \<le> c \<and> c \<le> 57 \<Longrightarrow>
   digits_val E acc prev (ds @ cs) =
   digits_val E (fold (\<lambda>c a. 10 * a + (c - 48)) ds acc) (prev \<or> ds \<noteq> []) cs"
proof (induction ds arbitrary: acc prev)
  case Nil
  then show ?case by simp
next
  case (Cons d ds)
  then have d: "48 \<le> d" "d \<le> 57" by simp_all
  then have "char_decimal E d = Some (d - 48)" "d \<noteq> 95"
    by (simp_all add: char_decimal_def)
  with Cons show ?case by simp
qed

lemma fold_nat_str: "fold (\<lambda>c a. 10 * a + (c - 48)) (nat_str n) acc = acc * 10 ^ length (nat_str n) + n"
proof (induction n arbitrary: acc rule: nat_str.induct)
  case (1 n)
  show ?case
  proof (cases "n < 10")
    case True
    then show ?thesis by (simp add: nat_str.simps[of n])
  next
    case False
    with "1.IH" show ?thesis
      by (simp add: nat_str.simps[of n] algebra_simps)
  qed
qed

lemma digits_val_nat_str: "digits_val E 0 False (nat_str n) = Some n"
  using digits_val_append[of "nat_str n" E 0 False "[]"] nat_str_digits[of _ n]
  by (simp add: fold_nat_str nat_str_nonempty)

lemma py_int_nat_str: "py_int E (nat_str n) = Inr (int n)"
proof -
  obtain c r where cr: "nat_str n = c # r"
    using nat_str_nonempty[of n] by (cases "nat_str n") auto
  then have "48 \<le> c \<and> c \<le> 57" using nat_str_digits[of c n] by simp
  then have "c \<noteq> 45" "c \<noteq> 43" by auto
  then show ?thesis
    using digits_val_nat_str[of E n] cr by (simp add: py_int_def)
qed

lemma split_acc_append:
  "\<forall>c \<in> set ds. \<not> char_isspace E c \<Longrightarrow> split_acc E tok (ds @ cs) = split_acc E (tok @ ds) cs"
  by (induction ds arbitrary: tok) simp_all

lemma digit_not_space: "48 \<le> c \<and> c \<le> 57 \<Longrightarrow> \<not> char_isspace E c"
  by (simp add: char_isspace_def ascii_isspace_def)

lemma str_split_timer_text:
  "str_split E (timer_text n) = [py ''Time'', py ''remaining:'', nat_str n, py ''seconds'']"
proof -
  have ns: "\<forall>c \<in> set (nat_str n). \<not> char_isspace E c"
    using nat_str_digits digit_not_space by blast
  have "split_acc E [] (nat_str n @ py '' seconds'') = split_acc E (nat_str n) (py '' seconds'')"
    using split_acc_append[OF ns, of "[]"] by simp
  also have "\<dots> = [nat_str n, py ''seconds'']"
    by (simp add: py_def char_isspace_def ascii_isspace_def nat_str_nonempty)
  finally show ?thesis
    by (simp add: str_split_def timer_text_def py_def char_isspace_def ascii_isspace_def)
qed

lemma label_remaining_timer_text: "label_remaining E (timer_text n) = Inr (int n)"
  by (simp add: label_remaining_def str_split_timer_text py_int_nat_str)

lemma timer_text_4: "py ''Time remaining: 4 seconds'' = timer_text 4"
  by (simp add: timer_text_def py_def nat_str.simps)

lemma timer_text_15: "py ''Time remaining: 15 seconds'' = timer_text 15"
  by (simp add: timer_text_def py_def nat_str.simps)

section \<open>The branches of \<open>check_word\<close>\<close>

lemma str_strip_surround:
  assumes pre: "\<forall>c \<in> set pre. char_isspace E c" and post: "\<forall>c \<in> set post. char_isspace E c"
  shows "str_strip E (pre @ w @ post) = str_strip E w"
proof -
  have 1: "dropWhile (char_isspace E) (pre @ w @ post) = dropWhile (char_isspace E) (w @ post)"
    using pre by (simp add: dropWhile_append2)
  show ?thesis
  proof (cases "\<forall>c \<in> set w. char_isspace E c")
    case True
    then have a: "dropWhile (char_isspace E) (pre @ w @ post) = []"
      and b: "dropWhile (char_isspace E) w = []"
      using pre post by simp_all
    show ?thesis by (simp only: str_strip_def str_lstrip_def a b)
  next
    case False
    then obtain x where "x \<in> set w" "\<not> char_isspace E x" by blast
    then have "dropWhile (char_isspace E) (w @ post) = dropWhile (char_isspace E) w @ post"
      by (rule dropWhile_append1)
    moreover have "dropWhile (char_isspace E) (rev post @ ys) = dropWhile (char_isspace E) ys" for ys
      using post by (intro dropWhile_append2) simp
    ultimately show ?thesis using 1 by (simp add: str_strip_def str_lstrip_def)
  qed
qed

lemma str_strip_no_lead: "dropWhile (char_isspace E) (str_strip E w) = str_strip E w"
proof -
  let ?a = "dropWhile (char_isspace E) w"
  let ?b = "rev (dropWhile (char_isspace E) (rev ?a))"
  have ab: "?a = ?b @ rev (takeWhile (char_isspace E) (rev ?a))"
  proof -
    have "rev ?a = takeWhile (char_isspace E) (rev ?a) @ dropWhile (char_isspace E) (rev ?a)"
      by simp
    then have "rev (rev ?a) = rev (takeWhile (char_isspace E) (rev ?a) @ dropWhile (char_isspace E) (rev ?a))"
      by (rule arg_cong)
    then show ?thesis by (simp only: rev_rev_ident rev_append)
  qed
  show ?thesis
  proof (cases "?b = []")
    case True
    have "str_strip E w = []"
      unfolding str_strip_def str_lstrip_def by (rule True)
    then show ?thesis by simp
  next
    case False
    have "?a \<noteq> []"
    proof
      assume e: "?a = []"
      have "?b = []" unfolding e by simp
      with False show False by (rule notE)
    qed
    then have "\<not> char_isspace E (hd ?a)" by (rule hd_dropWhile)
    moreover have "hd ?a = hd ?b" using ab False by (metis hd_append2)
    ultimately have "\<not> char_isspace E (hd ?b)" by simp
    then have "dropWhile (char_isspace E) ?b = ?b"
      using False by (simp add: dropWhile_eq_self_iff)
    then show ?thesis by (simp add: str_strip_def str_lstrip_def)
  qed
qed

lemma str_strip_idem: "str_strip E (str_strip E w) = str_strip E w"
proof -
  have "str_strip E (str_strip E w)
        = rev (dropWhile (char_isspace E) (rev (dropWhile (char_isspace E) (str_strip E w))))"
    by (simp add: str_strip_def str_lstrip_def)
  also have "\<dots> = rev (dropWhile (char_isspace E) (rev (str_strip E w)))"
    by (simp only: str_strip_no_lead)
  also have "\<dots> = str_strip E w"
    by (simp add: str_strip_def str_lstrip_def)
  finally show ?thesis .
qed

lemma check_word_not_running: "\<not> timer_running s \<Longrightarrow> check_word E s = Inr s"
  by (simp add: check_word_def)

lemma check_word_not_alpha:
  "timer_running s \<Longrightarrow> \<not> str_isalpha E (str_strip E (entry s)) \<Longrightarrow>
   check_word E s = Inr (show_warning (py ''Please enter only alphabetic characters.'') s)"
  by (simp add: check_word_def)

lemma check_word_wrong_length:
  "timer_running s \<Longrightarrow> str_isalpha E (str_strip E (entry s)) \<Longrightarrow>
   Some (int (length (str_strip E (entry s)))) \<noteq> required_length s \<Longrightarrow>
   check_word E s =
     Inr (show_warning
            (py ''Word must be exactly '' @ opt_int_str (required_length s) @ py '' letters long.'') s)"
  by (simp add: check_word_def)

lemma check_word_not_in_dictionary:
  "timer_running s \<Longrightarrow> str_isalpha E (str_strip E (entry s)) \<Longrightarrow>
   Some (int (length (str_strip E (entry s)))) = required_length s \<Longrightarrow>
   \<not> is_valid_word E (str_strip E (entry s)) \<Longrightarrow>
   check_word E s = Inr (show_warning (py ''The word is not in the dictionary.'') s)"
  by (simp add: check_word_def)

lemma check_word_accepted:
  "timer_running s \<Longrightarrow> str_isalpha E (str_strip E (entry s)) \<Longrightarrow>
   Some (int (length (str_strip E (entry s)))) = required_length s \<Longrightarrow>
   is_valid_word E (str_strip E (entry s)) \<Longrightarrow>
   label_remaining E (timer_label s) = Inr remaining \<Longrightarrow>
   check_word E s =
     Inr (s\<lparr>total_score :=
              total_score s + (calculate_score E (str_strip E (entry s))
                               + calculate_time_bonus (15 - remaining)),
            score_label :=
              py ''Score: '' @ int_str (total_score s + (calculate_score E (str_strip E (entry s))
                               + calculate_time_bonus (15 - remaining))),
            warning_text :=
              py ''Score: '' @ int_str (calculate_score E (str_strip E (entry s)))
                @ py '' (Bonus: '' @ int_str (calculate_time_bonus (15 - remaining)) @ py '')'',
            warning_fg := Green,
            after_queue := after_queue s @ [(2000, Start_Round)]\<rparr>)"
  by (simp add: check_word_def Let_def show_score_def root_after_def)

lemma check_word_entry:
  assumes "str_strip E e1 = str_strip E e2"
  shows "check_word E (s\<lparr>entry := e1\<rparr>) =
         map_sum id (\<lambda>s'. s'\<lparr>entry := e1\<rparr>) (check_word E (s\<lparr>entry := e2\<rparr>))"
  using assms
  by (simp add: check_word_def Let_def show_warning_def show_score_def root_after_def
           split: sum.splits)


section \<open>The timer and the rounds\<close>

lemma thread_join_stopped:
  assumes "stop_event s"
  shows "thread_join s =
         s\<lparr>timer_thread := (case timer_thread s of None \<Rightarrow> None | Some t \<Rightarrow> Some Finished)\<rparr>"
proof (cases "timer_thread s")
  case None
  then show ?thesis by (simp add: thread_join.simps[of s])
next
  case (Some t)
  show ?thesis
  proof (cases t)
    case (Iter n)
    with Some assms have 1: "countdown_step s = s\<lparr>timer_thread := Some Post\<rparr>"
      by (simp add: countdown_step_def)
    have 2: "countdown_step (s\<lparr>timer_thread := Some Post\<rparr>) = s\<lparr>timer_thread := Some Finished\<rparr>"
      using assms by (simp add: countdown_step_def)
    show ?thesis
      using Some Iter 1 2
      by (simp add: thread_join.simps[of s] thread_join.simps[of "s\<lparr>timer_thread := Some Post\<rparr>"]
            thread_join.simps[of "s\<lparr>timer_thread := Some Finished\<rparr>"])
  next
    case Post
    with Some assms have 2: "countdown_step s = s\<lparr>timer_thread := Some Finished\<rparr>"
      by (simp add: countdown_step_def)
    show ?thesis
      using Some Post 2
      by (simp add: thread_join.simps[of s] thread_join.simps[of "s\<lparr>timer_thread := Some Finished\<rparr>"])
  next
    case Finished
    with Some show ?thesis by (simp add: thread_join.simps[of s])
  qed
qed

lemma start_timer_eq:
  "start_timer s = s\<lparr>stop_event := False, timer_running := True, timer_thread := Some (Iter 15)\<rparr>"
  by (simp add: start_timer_def thread_join_stopped)

lemma start_round_next:
  "current_round s < max_rounds s \<Longrightarrow>
   start_round drawn s =
     s\<lparr>current_round := current_round s + 1,
       round_label := round_text (current_round s + 1) (max_rounds s),
       required_length := Some drawn,
       entry := [],
       required_length_label := py ''Enter a word with exactly '' @ int_str drawn @ py '' letters'',
       warning_text := [],
       stop_event := False, timer_running := True, timer_thread := Some (Iter 15)\<rparr>"
  by (simp add: start_round_def start_timer_eq)

lemma start_round_last:
  "\<not> current_round s < max_rounds s \<Longrightarrow>
   start_round drawn s =
     s\<lparr>packed := False,
       final_score_label := Some (py ''Total Score: '' @ int_str (total_score s))\<rparr>"
  by (simp add: start_round_def show_end_game_screen_def)

lemma tick_iter:
  "timer_thread s = Some (Iter n) \<Longrightarrow> \<not> stop_event s \<Longrightarrow>
   tick s = s\<lparr>timer_thread := Some (if n \<le> 1 then Post else Iter (n - 1)),
              timer_label := timer_text n\<rparr>"
  by (simp add: tick_def countdown_step_def update_timer_display_def root_after_def
        run_after_def run_callback_def)

lemma tick_post:
  "timer_thread s = Some Post \<Longrightarrow> \<not> stop_event s \<Longrightarrow>
   tick s = s\<lparr>timer_thread := Some Finished, timer_label := timer_text 0,
              warning_text := py ''Time's up!'',
              after_queue := after_queue s @ [(1000, Start_Round)]\<rparr>"
  by (simp add: tick_def countdown_step_def update_timer_display_def root_after_def
        run_after_def run_callback_def nth_append)

lemma ticks_to_post:
  "timer_thread s = Some (Iter n) \<Longrightarrow> \<not> stop_event s \<Longrightarrow> 0 < n \<Longrightarrow>
   (tick ^^ n) s = s\<lparr>timer_thread := Some Post, timer_label := timer_text 1\<rparr>"
proof (induction n arbitrary: s)
  case 0
  then show ?case by simp
next
  case (Suc n)
  show ?case
  proof (cases "n = 0")
    case True
    with Suc.prems show ?thesis by (simp add: tick_iter)
  next
    case False
    let ?s = "s\<lparr>timer_thread := Some (Iter n), timer_label := timer_text (Suc n)\<rparr>"
    have "tick s = ?s" using Suc.prems False by (simp add: tick_iter)
    moreover have "(tick ^^ n) ?s = ?s\<lparr>timer_thread := Some Post, timer_label := timer_text 1\<rparr>"
      using Suc.prems False by (intro Suc.IH) simp_all
    ultimately show ?thesis by (simp add: funpow_swap1)
  qed
qed

lemma ticks_to_expiry:
  assumes "timer_thread s = Some (Iter n)" "\<not> stop_event s" "0 < n"
  shows "(tick ^^ Suc n) s =
         s\<lparr>timer_thread := Some Finished, timer_label := timer_text 0,
           warning_text := py ''Time's up!'',
           after_queue := after_queue s @ [(1000, Start_Round)]\<rparr>"
  using assms by (simp add: ticks_to_post tick_post)

section \<open>Facts about the sample runs\<close>

lemma strip_1a: "str_strip E (py ''1a'') = py ''1a''"
  by (simp add: str_strip_def str_lstrip_def py_def char_isspace_def ascii_isspace_def)

lemma not_alpha_1a: "\<not> str_isalpha E (py ''1a'')"
  by (simp add: str_isalpha_def py_def char_isalpha_def ascii_isalpha_def ascii_isupper_def ascii_islower_def)

lemma new_game_eq:
  "new_game drawn =
     \<lparr>required_length = Some drawn, total_score = 0, current_round = 1, max_rounds = 10,
      timer_running = True, stop_event = False, timer_thread = Some (Iter 15),
      round_label = round_text 1 10, score_label = py ''Score: '' @ int_str 0,
      timer_label = timer_text 15,
      required_length_label = py ''Enter a word with exactly '' @ int_str drawn @ py '' letters'',
      warning_text = [], warning_fg = Red, entry = [], packed = True,
      final_score_label = None, after_queue = []\<rparr>"
  by (simp add: new_game_def setup_gui_def start_round_def start_timer_def timer_text_15)

lemma expired_game_eq:
  "expired_game =
     (new_game 7)\<lparr>timer_thread := Some Finished, timer_label := timer_text 0,
                  warning_text := py ''Time's up!'',
                  after_queue := [(1000, Start_Round)]\<rparr>"
proof -
  have "(tick ^^ Suc 15) (new_game 7) =
     (new_game 7)\<lparr>timer_thread := Some Finished, timer_label := timer_text 0,
                  warning_text := py ''Time's up!'',
                  after_queue := after_queue (new_game 7) @ [(1000, Start_Round)]\<rparr>"
    by (rule ticks_to_expiry) (simp_all add: new_game_eq)
  moreover have "Suc 15 = 16" by simp
  ultimately show ?thesis by (simp add: expired_game_def new_game_eq)
qed

lemma strip_hi: "str_strip E (py ''hi'') = py ''hi''"
  by (simp add: str_strip_def str_lstrip_def py_def char_isspace_def ascii_isspace_def)

lemma alpha_hi: "str_isalpha E (py ''hi'')"
  by (simp add: str_isalpha_def py_def char_isalpha_def ascii_isalpha_def ascii_isupper_def ascii_islower_def)

lemma strip_cabbage: "str_strip E (py ''cabbage'') = py ''cabbage''"
  by (simp add: str_strip_def str_lstrip_def py_def char_isspace_def ascii_isspace_def)

lemma alpha_cabbage: "str_isalpha E (py ''cabbage'')"
  by (simp add: str_isalpha_def py_def char_isalpha_def ascii_isalpha_def ascii_isupper_def
        ascii_islower_def)

lemma length_cabbage: "length (py ''cabbage'') = 7"
  by (simp add: py_def)

lemma lower_cabbage: "str_lower E (py ''cabbage'') = py ''cabbage''"
  by (simp add: str_lower_def is_ascii_def py_def ascii_lower_def ascii_isupper_def)

lemma valid_cabbage: "is_valid_word E (py ''cabbage'') = spell E (py ''cabbage'')"
  by (simp add: is_valid_word_def lower_cabbage)

lemma spell_test_env: "spell test_env (py ''cabbage'')"
  by (simp add: test_env_def)

lemma score_text_14_5:
  "py ''Score: '' @ int_str 14 @ py '' (Bonus: '' @ int_str 5 @ py '')'' = py ''Score: 14 (Bonus: 5)''"
  by (simp add: py_def int_str_def nat_str.simps)

lemma score_text_14_20:
  "py ''Score: '' @ int_str 14 @ py '' (Bonus: '' @ int_str 20 @ py '')'' = py ''Score: 14 (Bonus: 20)''"
  by (simp add: py_def int_str_def nat_str.simps)

lemma check_word_cabbage:
  assumes "timer_running s" "required_length s = Some 7" "str_strip E (entry s) = py ''cabbage''"
    "spell E (py ''cabbage'')" "label_remaining E (timer_label s) = Inr remaining"
  shows "check_word E s =
     Inr (s\<lparr>total_score := total_score s + (14 + calculate_time_bonus (15 - remaining)),
            score_label :=
              py ''Score: '' @ int_str (total_score s + (14 + calculate_time_bonus (15 - remaining))),
            warning_text :=
              py ''Score: '' @ int_str 14
                @ py '' (Bonus: '' @ int_str (calculate_time_bonus (15 - remaining)) @ py '')'',
            warning_fg := Green,
            after_queue := after_queue s @ [(2000, Start_Round)]\<rparr>)"
  using check_word_accepted[of s E remaining] assms
  by (simp add: alpha_cabbage length_cabbage valid_cabbage score_cabbage)

lemma submit_cabbage:
  assumes "timer_running s" "required_length s = Some 7" "spell E (py ''cabbage'')"
    "label_remaining E (timer_label s) = Inr remaining"
  shows "submit E (py ''cabbage'') s =
     s\<lparr>entry := py ''cabbage'',
       total_score := total_score s + (14 + calculate_time_bonus (15 - remaining)),
       score_label :=
         py ''Score: '' @ int_str (total_score s + (14 + calculate_time_bonus (15 - remaining))),
       warning_text :=
         py ''Score: '' @ int_str 14
           @ py '' (Bonus: '' @ int_str (calculate_time_bonus (15 - remaining)) @ py '')'',
       warning_fg := Green,
       after_queue := after_queue s @ [(2000, Start_Round)]\<rparr>"
proof -
  let ?s = "s\<lparr>entry := py ''cabbage''\<rparr>"
  have "check_word E ?s =
     Inr (?s\<lparr>total_score := total_score ?s + (14 + calculate_time_bonus (15 - remaining)),
            score_label :=
              py ''Score: '' @ int_str (total_score ?s + (14 + calculate_time_bonus (15 - remaining))),
            warning_text :=
              py ''Score: '' @ int_str 14
                @ py '' (Bonus: '' @ int_str (calculate_time_bonus (15 - remaining)) @ py '')'',
            warning_fg := Green,
            after_queue := after_queue ?s @ [(2000, Start_Round)]\<rparr>)"
    using assms by (intro check_word_cabbage) (simp_all add: strip_cabbage)
  then show ?thesis by (simp add: submit_def)
qed

lemma next_round_after_submit:
  "after_queue s = q @ [(2000, Start_Round)] \<Longrightarrow>
   next_round drawn s = start_round drawn (s\<lparr>after_queue := q\<rparr>)"
  by (simp add: next_round_def run_after_def run_callback_def nth_append)

text \<open>The facts about a game that a round won with \<open>cabbage\<close> at full time keeps.\<close>

lemma won_round:
  assumes "timer_running s" "required_length s = Some 7" "timer_label s = timer_text 15"
    and "current_round s < max_rounds s"
  shows "timer_running (next_round 7 (submit test_env (py ''cabbage'') s))
    \<and> required_length (next_round 7 (submit test_env (py ''cabbage'') s)) = Some 7
    \<and> timer_label (next_round 7 (submit test_env (py ''cabbage'') s)) = timer_text 15
    \<and> current_round (next_round 7 (submit test_env (py ''cabbage'') s)) = current_round s + 1
    \<and> max_rounds (next_round 7 (submit test_env (py ''cabbage'') s)) = max_rounds s
    \<and> total_score (next_round 7 (submit test_env (py ''cabbage'') s)) = total_score s + 34
    \<and> final_score_label (next_round 7 (submit test_env (py ''cabbage'') s)) = final_score_label s"
proof -
  have l: "label_remaining test_env (timer_label s) = Inr 15"
    using label_remaining_timer_text[of test_env 15] assms(3) by simp
  note sub = submit_cabbage[OF assms(1,2) spell_test_env l]
  have "after_queue (submit test_env (py ''cabbage'') s) = after_queue s @ [(2000, Start_Round)]"
    by (simp add: sub)
  from next_round_after_submit[OF this] assms show ?thesis
    by (simp add: sub start_round_next calculate_time_bonus_def)
qed

lemma won_rounds:
  "k \<le> 9 \<Longrightarrow>
   timer_running (((\<lambda>s. next_round 7 (submit test_env (py ''cabbage'') s)) ^^ k) (new_game 7))
   \<and> required_length (((\<lambda>s. next_round 7 (submit test_env (py ''cabbage'') s)) ^^ k) (new_game 7)) = Some 7
   \<and> timer_label (((\<lambda>s. next_round 7 (submit test_env (py ''cabbage'') s)) ^^ k) (new_game 7)) = timer_text 15
   \<and> current_round (((\<lambda>s. next_round 7 (submit test_env (py ''cabbage'') s)) ^^ k) (new_game 7)) = 1 + int k
   \<and> max_rounds (((\<lambda>s. next_round 7 (submit test_env (py ''cabbage'') s)) ^^ k) (new_game 7)) = 10
   \<and> total_score (((\<lambda>s. next_round 7 (submit test_env (py ''cabbage'') s)) ^^ k) (new_game 7)) = 34 * int k
   \<and> final_score_label (((\<lambda>s. next_round 7 (submit test_env (py ''cabbage'') s)) ^^ k) (new_game 7)) = None"
proof (induction k)
  case 0
  show ?case by (simp add: new_game_eq)
next
  case (Suc k)
  let ?s = "((\<lambda>s. next_round 7 (submit test_env (py ''cabbage'') s)) ^^ k) (new_game 7)"
  from Suc have ih: "timer_running ?s" "required_length ?s = Some 7" "timer_label ?s = timer_text 15"
    "current_round ?s = 1 + int k" "max_rounds ?s = 10" "total_score ?s = 34 * int k"
    "final_score_label ?s = None"
    by simp_all
  have lt: "current_round ?s < max_rounds ?s" using ih Suc.prems by simp
  from won_round[OF ih(1,2,3) lt] ih show ?case by simp
qed

lemma game_over_game_eq:
  "timer_running game_over_game
   \<and> required_length game_over_game = Some 7
   \<and> timer_label game_over_game = timer_text 15
   \<and> entry game_over_game = py ''cabbage''
   \<and> current_round game_over_game = 10
   \<and> max_rounds game_over_game = 10
   \<and> total_score game_over_game = 340
   \<and> packed game_over_game = False
   \<and> final_score_label game_over_game = Some (py ''Total Score: 340'')"
proof -
  let ?s = "((\<lambda>s. next_round 7 (submit test_env (py ''cabbage'') s)) ^^ 9) (new_game 7)"
  have ih: "timer_running ?s" "required_length ?s = Some 7" "timer_label ?s = timer_text 15"
    "current_round ?s = 10" "max_rounds ?s = 10" "total_score ?s = 306"
    using won_rounds[of 9] by simp_all
  have l: "label_remaining test_env (timer_label ?s) = Inr 15"
    using label_remaining_timer_text[of test_env 15] ih(3) by simp
  note sub = submit_cabbage[OF ih(1,2) spell_test_env l]
  have q: "after_queue (submit test_env (py ''cabbage'') ?s) = after_queue ?s @ [(2000, Start_Round)]"
    by (simp add: sub)
  have g: "game_over_game = next_round 7 (submit test_env (py ''cabbage'') ?s)"
  proof -
    have "(10::nat) = Suc 9" by simp
    then show ?thesis unfolding game_over_game_def by (simp only: funpow.simps o_apply)
  qed
  have t: "py ''Total Score: '' @ int_str 340 = py ''Total Score: 340''"
    by (simp add: py_def int_str_def nat_str.simps)
  show ?thesis
    unfolding g next_round_after_submit[OF q]
    using ih by (simp add: sub start_round_last calculate_time_bonus_def t)
qed

lemma ticks_part:
  "timer_thread s = Some (Iter n) \<Longrightarrow> \<not> stop_event s \<Longrightarrow> 0 < k \<Longrightarrow> k < n \<Longrightarrow>
   (tick ^^ k) s = s\<lparr>timer_thread := Some (Iter (n - k)), timer_label := timer_text (Suc (n - k))\<rparr>"
proof (induction k arbitrary: s n)
  case 0
  then show ?case by simp
next
  case (Suc k)
  let ?s = "s\<lparr>timer_thread := Some (Iter (n - 1)), timer_label := timer_text n\<rparr>"
  have t: "tick s = ?s" using Suc.prems by (simp add: tick_iter)
  show ?case
  proof (cases "k = 0")
    case True
    with t Suc.prems show ?thesis by simp
  next
    case False
    have "(tick ^^ k) ?s
          = ?s\<lparr>timer_thread := Some (Iter (n - 1 - k)), timer_label := timer_text (Suc (n - 1 - k))\<rparr>"
      using Suc.prems False by (intro Suc.IH) simp_all
    with t show ?thesis by (simp add: funpow_swap1)
  qed
qed

lemma late_game_eq:
  "late_game = (new_game 7)\<lparr>timer_thread := Some (Iter 1), timer_label := timer_text 2\<rparr>"
proof -
  have "(tick ^^ 14) (new_game 7)
        = (new_game 7)\<lparr>timer_thread := Some (Iter (15 - 14)),
                        timer_label := timer_text (Suc (15 - 14))\<rparr>"
    by (rule ticks_part) (simp_all add: new_game_eq)
  moreover have "15 - 14 = (1::nat)" "Suc (15 - 14) = 2" by simp_all
  ultimately show ?thesis by (simp only: late_game_def)
qed

lemma late_win_eq:
  "late_win =
     (new_game 7)\<lparr>timer_thread := Some (Iter 1), timer_label := timer_text 2,
                  entry := py ''cabbage'', total_score := 19,
                  score_label := py ''Score: '' @ int_str 19,
                  warning_text := py ''Score: 14 (Bonus: 5)'', warning_fg := Green,
                  after_queue := [(2000, Start_Round)]\<rparr>"
proof -
  have l: "label_remaining test_env (timer_label late_game) = Inr 2"
    using label_remaining_timer_text[of test_env 2] by (simp add: late_game_eq)
  have r: "timer_running late_game" "required_length late_game = Some 7"
    by (simp_all add: late_game_eq new_game_eq)
  show ?thesis
    unfolding late_win_def submit_cabbage[OF r spell_test_env l]
    by (simp add: late_game_eq new_game_eq calculate_time_bonus_def score_text_14_5)
qed

lemma late_win_expired:
  "(tick ^^ 2) late_win =
     late_win\<lparr>timer_thread := Some Finished, timer_label := timer_text 0,
              warning_text := py ''Time's up!'',
              after_queue := [(2000, Start_Round), (1000, Start_Round)]\<rparr>"
proof -
  have "(tick ^^ Suc 1) late_win =
     late_win\<lparr>timer_thread := Some Finished, timer_label := timer_text 0,
              warning_text := py ''Time's up!'',
              after_queue := after_queue late_win @ [(1000, Start_Round)]\<rparr>"
    by (rule ticks_to_expiry) (simp_all add: late_win_eq new_game_eq)
  moreover have "Suc 1 = 2" by simp
  moreover have "after_queue late_win = [(2000, Start_Round)]" by (simp add: late_win_eq)
  ultimately show ?thesis by (simp only: append.simps)
qed

lemma won_round_timer:
  assumes "timer_running s" "required_length s = Some 7" "timer_label s = timer_text 15"
    and "current_round s < max_rounds s"
  shows "stop_event (next_round 7 (submit test_env (py ''cabbage'') s)) = False
    \<and> timer_thread (next_round 7 (submit test_env (py ''cabbage'') s)) = Some (Iter 15)"
proof -
  have l: "label_remaining test_env (timer_label s) = Inr 15"
    using label_remaining_timer_text[of test_env 15] assms(3) by simp
  note sub = submit_cabbage[OF assms(1,2) spell_test_env l]
  have "after_queue (submit test_env (py ''cabbage'') s) = after_queue s @ [(2000, Start_Round)]"
    by (simp add: sub)
  from next_round_after_submit[OF this] assms show ?thesis
    by (simp add: sub start_round_next)
qed

lemma game_over_game_timer:
  "stop_event game_over_game = False \<and> timer_thread game_over_game = Some (Iter 15)"
proof -
  let ?r = "\<lambda>s. next_round 7 (submit test_env (py ''cabbage'') s)"
  let ?s8 = "(?r ^^ 8) (new_game 7)"
  let ?s9 = "(?r ^^ 9) (new_game 7)"
  have i8: "timer_running ?s8" "required_length ?s8 = Some 7" "timer_label ?s8 = timer_text 15"
    "current_round ?s8 = 9" "max_rounds ?s8 = 10"
    using won_rounds[of 8] by simp_all
  have i9: "timer_running ?s9" "required_length ?s9 = Some 7" "timer_label ?s9 = timer_text 15"
    "current_round ?s9 = 10" "max_rounds ?s9 = 10"
    using won_rounds[of 9] by simp_all
  have s9: "?s9 = ?r ?s8"
  proof -
    have "(9::nat) = Suc 8" by simp
    then show ?thesis by (simp only: funpow.simps o_apply)
  qed
  have g: "game_over_game = ?r ?s9"
  proof -
    have "(10::nat) = Suc 9" by simp
    then show ?thesis unfolding game_over_game_def by (simp only: funpow.simps o_apply)
  qed
  have lt: "current_round ?s8 < max_rounds ?s8" using i8 by simp
  have t9: "stop_event ?s9 = False" "timer_thread ?s9 = Some (Iter 15)"
    using won_round_timer[OF i8(1,2,3) lt] by (simp_all only: s9)
  have l9: "label_remaining test_env (timer_label ?s9) = Inr 15"
    using label_remaining_timer_text[of test_env 15] i9(3) by simp
  note sub = submit_cabbage[OF i9(1,2) spell_test_env l9]
  have q: "after_queue (submit test_env (py ''cabbage'') ?s9) = after_queue ?s9 @ [(2000, Start_Round)]"
    by (simp add: sub)
  show ?thesis
    unfolding g next_round_after_submit[OF q]
    using i9 t9 by (simp add: sub start_round_last)
qed

section \<open>Properties of the scoring functions\<close>

text \<open>
  C3: for every elapsed time from 0 on, \<open>calculate_time_bonus\<close> is 20 up to 5 seconds, 10
  from 6 to 10, 5 from 11 to 15 and 0 above 15, the upper edge of each tier included:
  the bonus of 0 and of 5 is 20, of 6 and of 10 is 10, of 11 and of 15 is 5, of 16 is 0.
\<close>

theorem calculate_time_bonus_tiers:
  "(\<forall>e. 0 \<le> e \<and> e \<le> 5 \<longrightarrow> calculate_time_bonus e = 20)
   \<and> (\<forall>e. 6 \<le> e \<and> e \<le> 10 \<longrightarrow> calculate_time_bonus e = 10)
   \<and> (\<forall>e. 11 \<le> e \<and> e \<le> 15 \<longrightarrow> calculate_time_bonus e = 5)
   \<and> (\<forall>e. 15 < e \<longrightarrow> calculate_time_bonus e = 0)
   \<and> calculate_time_bonus 0 = 20 \<and> calculate_time_bonus 5 = 20
   \<and> calculate_time_bonus 6 = 10 \<and> calculate_time_bonus 10 = 10
   \<and> calculate_time_bonus 11 = 5 \<and> calculate_time_bonus 15 = 5
   \<and> calculate_time_bonus 16 = 0"
  by (simp add: calculate_time_bonus_def)

theorem calculate_time_bonus_tiers_witness:
  "calculate_time_bonus 3 = 20 \<and> calculate_time_bonus 8 = 10
   \<and> calculate_time_bonus 13 = 5 \<and> calculate_time_bonus 40 = 0"
proof -
  have a: "\<forall>e. 0 \<le> e \<and> e \<le> 5 \<longrightarrow> calculate_time_bonus e = 20"
    and b: "\<forall>e. 6 \<le> e \<and> e \<le> 10 \<longrightarrow> calculate_time_bonus e = 10"
    and c: "\<forall>e. 11 \<le> e \<and> e \<le> 15 \<longrightarrow> calculate_time_bonus e = 5"
    and d: "\<forall>e. 15 < e \<longrightarrow> calculate_time_bonus e = 0"
    using calculate_time_bonus_tiers by blast+
  show ?thesis using a b c d by simp
qed

text \<open>
  C4: the score of a string is the sum, over its characters, of the table value of the
  character's uppercase form, and 0 where that form is no key of the table. The keys
  are the letters \<open>A\<close> to \<open>Z\<close>, each with a value from 1 to 10; an ASCII character
  that is no letter adds 0, a letter \<open>a\<close> to \<open>z\<close> or \<open>A\<close> to \<open>Z\<close> adds its value.
  The function is total, the empty string scores 0,
  \<open>apple\<close> scores 9 and \<open>orange\<close> scores 7.
\<close>

theorem calculate_score_sum:
  "calculate_score E word = (\<Sum>c\<leftarrow>word. calculate_score E [c])
   \<and> calculate_score E [c] = dict_get letter_values (str_upper E [c]) 0
   \<and> (\<forall>k. \<not> (\<exists>l. k = [l] \<and> ascii_isupper l) \<longrightarrow> dict_get letter_values k 0 = 0)
   \<and> (\<forall>l. ascii_isupper l \<longrightarrow>
          1 \<le> dict_get letter_values [l] 0 \<and> dict_get letter_values [l] 0 \<le> 10)
   \<and> (\<forall>a. a < 128 \<and> \<not> ascii_isalpha a \<longrightarrow> calculate_score E [a] = 0)
   \<and> (\<forall>a. ascii_isalpha a \<longrightarrow> 1 \<le> calculate_score E [a] \<and> calculate_score E [a] \<le> 10)
   \<and> calculate_score E [] = 0
   \<and> calculate_score E (py ''apple'') = 9
   \<and> calculate_score E (py ''orange'') = 7"
proof -
  have 1: "calculate_score E word = (\<Sum>c\<leftarrow>word. calculate_score E [c])"
    by (rule calculate_score_chars)
  have 2: "calculate_score E [c] = dict_get letter_values (str_upper E [c]) 0"
    by (simp add: calculate_score_def)
  show ?thesis
    using 1 2 dict_get_letter_values_other dict_get_letter_values_range score_nonletter
      score_letter calculate_score_Nil score_apple score_orange
    by blast
qed

theorem calculate_score_sum_witness:
  "\<not> ascii_isalpha 49 \<and> calculate_score test_env [49] = 0
   \<and> ascii_isupper 81 \<and> 1 \<le> dict_get letter_values [81] 0
   \<and> calculate_score test_env (py ''a1'') = calculate_score test_env [97] + calculate_score test_env [49]"
proof -
  note t = calculate_score_sum[of test_env "py ''a1''" 0]
  have "\<forall>a. a < 128 \<and> \<not> ascii_isalpha a \<longrightarrow> calculate_score test_env [a] = 0"
    using t by blast
  moreover have "\<forall>l. ascii_isupper l \<longrightarrow> 1 \<le> dict_get letter_values [l] 0"
    using t by blast
  moreover have "calculate_score test_env (py ''a1'') = (\<Sum>c\<leftarrow>py ''a1''. calculate_score test_env [c])"
    using t by blast
  ultimately show ?thesis
    by (simp add: ascii_isalpha_def ascii_isupper_def ascii_islower_def py_def)
qed

text \<open>
  C9: on a word made of the letters \<open>A\<close> to \<open>Z\<close> in either case, the score of the
  word, of \<open>w.upper()\<close> and of \<open>w.lower()\<close> are the same.
\<close>

theorem calculate_score_case_insensitive:
  assumes "\<forall>c \<in> set w. ascii_isalpha c"
  shows "calculate_score E w = calculate_score E (str_upper E w)
       \<and> calculate_score E w = calculate_score E (str_lower E w)"
  using assms is_ascii_alpha[OF assms]
  by (simp add: str_upper_def str_lower_def score_map_upper score_map_lower)

theorem calculate_score_case_insensitive_witness:
  "list_all ascii_isalpha (py ''oRANGe'')
   \<and> calculate_score test_env (py ''oRANGe'') = calculate_score test_env (str_upper test_env (py ''oRANGe''))
   \<and> calculate_score test_env (py ''oRANGe'') = calculate_score test_env (str_lower test_env (py ''oRANGe''))"
proof -
  have h: "\<forall>c \<in> set (py ''oRANGe''). ascii_isalpha c"
    by (simp add: py_def ascii_isalpha_def ascii_isupper_def ascii_islower_def)
  show ?thesis
    using h calculate_score_case_insensitive[OF h, of test_env] by (simp add: list_all_iff)
qed

section \<open>Properties of a submission\<close>

text \<open>
  C1: a valid submission in a running round takes the remaining seconds from the text of
  the timer label (the text the timer wrote for \<open>n\<close> seconds reads back as \<open>n\<close>), takes
  15 minus that as the elapsed time, and adds the score of the word plus the time bonus of
  the elapsed time to \<open>total_score\<close>; both are reported in the warning label, and
  \<open>start_round\<close> is registered for 2000 ms later. With required length 7, the word
  \<open>cabbage\<close> and 4 seconds remaining, the elapsed time is 11, the bonus 5, the round
  adds 19 and the report reads \<open>Score: 14 (Bonus: 5)\<close>.
\<close>

theorem check_word_valid_adds_score:
  "(timer_running s
      \<and> str_isalpha E (str_strip E (entry s))
      \<and> Some (int (length (str_strip E (entry s)))) = required_length s
      \<and> is_valid_word E (str_strip E (entry s))
      \<and> label_remaining E (timer_label s) = Inr remaining \<longrightarrow>
    check_word E s =
      Inr (s\<lparr>total_score :=
               total_score s + (calculate_score E (str_strip E (entry s))
                                + calculate_time_bonus (15 - remaining)),
             score_label :=
               py ''Score: '' @ int_str (total_score s + (calculate_score E (str_strip E (entry s))
                                + calculate_time_bonus (15 - remaining))),
             warning_text :=
               py ''Score: '' @ int_str (calculate_score E (str_strip E (entry s)))
                 @ py '' (Bonus: '' @ int_str (calculate_time_bonus (15 - remaining)) @ py '')'',
             warning_fg := Green,
             after_queue := after_queue s @ [(2000, Start_Round)]\<rparr>))
   \<and> label_remaining E (timer_text n) = Inr (int n)
   \<and> (timer_running s \<and> required_length s = Some 7 \<and> entry s = py ''cabbage''
      \<and> spell E (py ''cabbage'') \<and> timer_label s = py ''Time remaining: 4 seconds'' \<longrightarrow>
      15 - (4::int) = 11 \<and> calculate_time_bonus 11 = 5
      \<and> check_word E s =
          Inr (s\<lparr>total_score := total_score s + 19,
                 score_label := py ''Score: '' @ int_str (total_score s + 19),
                 warning_text := py ''Score: 14 (Bonus: 5)'',
                 warning_fg := Green,
                 after_queue := after_queue s @ [(2000, Start_Round)]\<rparr>))"
proof (intro conjI impI)
  assume "timer_running s
      \<and> str_isalpha E (str_strip E (entry s))
      \<and> Some (int (length (str_strip E (entry s)))) = required_length s
      \<and> is_valid_word E (str_strip E (entry s))
      \<and> label_remaining E (timer_label s) = Inr remaining"
  then show "check_word E s =
      Inr (s\<lparr>total_score :=
               total_score s + (calculate_score E (str_strip E (entry s))
                                + calculate_time_bonus (15 - remaining)),
             score_label :=
               py ''Score: '' @ int_str (total_score s + (calculate_score E (str_strip E (entry s))
                                + calculate_time_bonus (15 - remaining))),
             warning_text :=
               py ''Score: '' @ int_str (calculate_score E (str_strip E (entry s)))
                 @ py '' (Bonus: '' @ int_str (calculate_time_bonus (15 - remaining)) @ py '')'',
             warning_fg := Green,
             after_queue := after_queue s @ [(2000, Start_Round)]\<rparr>)"
    by (simp add: check_word_accepted)
next
  show "label_remaining E (timer_text n) = Inr (int n)"
    by (rule label_remaining_timer_text)
next
  show "15 - (4::int) = 11" by simp
next
  show "calculate_time_bonus 11 = 5" by (simp add: calculate_time_bonus_def)
next
  assume a: "timer_running s \<and> required_length s = Some 7 \<and> entry s = py ''cabbage''
      \<and> spell E (py ''cabbage'') \<and> timer_label s = py ''Time remaining: 4 seconds''"
  then have "label_remaining E (timer_label s) = Inr 4"
    using label_remaining_timer_text[of E 4] by (simp add: timer_text_4)
  with a have "check_word E s =
     Inr (s\<lparr>total_score := total_score s + (14 + calculate_time_bonus (15 - 4)),
            score_label :=
              py ''Score: '' @ int_str (total_score s + (14 + calculate_time_bonus (15 - 4))),
            warning_text :=
              py ''Score: '' @ int_str 14
                @ py '' (Bonus: '' @ int_str (calculate_time_bonus (15 - 4)) @ py '')'',
            warning_fg := Green,
            after_queue := after_queue s @ [(2000, Start_Round)]\<rparr>)"
    by (intro check_word_cabbage) (simp_all add: strip_cabbage)
  then show "check_word E s =
          Inr (s\<lparr>total_score := total_score s + 19,
                 score_label := py ''Score: '' @ int_str (total_score s + 19),
                 warning_text := py ''Score: 14 (Bonus: 5)'',
                 warning_fg := Green,
                 after_queue := after_queue s @ [(2000, Start_Round)]\<rparr>)"
    by (simp add: calculate_time_bonus_def score_text_14_5)
qed

theorem check_word_valid_adds_score_witness:
  "check_word test_env
     ((new_game 7)\<lparr>entry := py ''cabbage'', timer_label := py ''Time remaining: 4 seconds''\<rparr>)
   = Inr ((new_game 7)\<lparr>entry := py ''cabbage'', timer_label := py ''Time remaining: 4 seconds'',
                        total_score := 19, score_label := py ''Score: 19'',
                        warning_text := py ''Score: 14 (Bonus: 5)'', warning_fg := Green,
                        after_queue := [(2000, Start_Round)]\<rparr>)"
proof -
  let ?s = "(new_game 7)\<lparr>entry := py ''cabbage'', timer_label := py ''Time remaining: 4 seconds''\<rparr>"
  have h: "timer_running ?s \<and> required_length ?s = Some 7 \<and> entry ?s = py ''cabbage''
      \<and> spell test_env (py ''cabbage'') \<and> timer_label ?s = py ''Time remaining: 4 seconds''"
    by (simp add: new_game_eq spell_test_env)
  have t: "py ''Score: '' @ int_str 19 = py ''Score: 19''"
    by (simp add: py_def int_str_def nat_str.simps)
  have z: "total_score ?s = 0" "after_queue ?s = []" by (simp_all add: new_game_eq)
  from check_word_valid_adds_score[of ?s test_env 4 0] h
  have "check_word test_env ?s =
          Inr (?s\<lparr>total_score := total_score ?s + 19,
                 score_label := py ''Score: '' @ int_str (total_score ?s + 19),
                 warning_text := py ''Score: 14 (Bonus: 5)'',
                 warning_fg := Green,
                 after_queue := after_queue ?s @ [(2000, Start_Round)]\<rparr>)"
    by blast
  then show ?thesis by (simp add: z t)
qed

text \<open>
  C2: the checks run in a fixed order and the first that fails decides the message: a
  stripped input that is not alphabetic gets the alphabetic message whatever its length
  and whatever the dictionary says, an alphabetic one of the wrong length gets the length
  message whatever the dictionary says, and only an alphabetic one of the right length
  can get the dictionary message. The two first messages differ, and the input \<open>1a\<close>
  with required length 5 gets the alphabetic one.
\<close>

theorem check_word_order:
  assumes "timer_running s"
  shows "(\<not> str_isalpha E (str_strip E (entry s)) \<longrightarrow>
            map_sum id warning_text (check_word E s)
              = Inr (py ''Please enter only alphabetic characters.''))
       \<and> (str_isalpha E (str_strip E (entry s))
            \<and> Some (int (length (str_strip E (entry s)))) \<noteq> required_length s \<longrightarrow>
            map_sum id warning_text (check_word E s)
              = Inr (py ''Word must be exactly '' @ opt_int_str (required_length s)
                       @ py '' letters long.''))
       \<and> (str_isalpha E (str_strip E (entry s))
            \<and> Some (int (length (str_strip E (entry s)))) = required_length s
            \<and> \<not> is_valid_word E (str_strip E (entry s)) \<longrightarrow>
            map_sum id warning_text (check_word E s)
              = Inr (py ''The word is not in the dictionary.''))
       \<and> py ''Please enter only alphabetic characters.''
            \<noteq> py ''Word must be exactly '' @ opt_int_str (required_length s) @ py '' letters long.''
       \<and> map_sum id warning_text
            (check_word E (s\<lparr>entry := py ''1a'', required_length := Some 5\<rparr>))
            = Inr (py ''Please enter only alphabetic characters.'')"
proof -
  let ?t = "s\<lparr>entry := py ''1a'', required_length := Some 5\<rparr>"
  have "timer_running ?t" "\<not> str_isalpha E (str_strip E (entry ?t))"
    using assms by (simp_all add: strip_1a not_alpha_1a)
  then have "check_word E ?t = Inr (show_warning (py ''Please enter only alphabetic characters.'') ?t)"
    by (rule check_word_not_alpha)
  moreover have "py ''Please enter only alphabetic characters.''
            \<noteq> py ''Word must be exactly '' @ opt_int_str (required_length s) @ py '' letters long.''"
    by (simp add: py_def)
  ultimately show ?thesis
    using assms
    by (simp add: check_word_not_alpha check_word_wrong_length check_word_not_in_dictionary
          show_warning_def)
qed

theorem check_word_order_witness:
  "timer_running ((new_game 5)\<lparr>entry := py ''1a''\<rparr>)
   \<and> \<not> str_isalpha test_env (str_strip test_env (py ''1a''))
   \<and> Some (int (length (str_strip test_env (py ''1a'')))) \<noteq> Some 5
   \<and> map_sum id warning_text (check_word test_env ((new_game 5)\<lparr>entry := py ''1a''\<rparr>))
       = Inr (py ''Please enter only alphabetic characters.'')"
proof -
  let ?s = "(new_game 5)\<lparr>entry := py ''1a''\<rparr>"
  have r: "timer_running ?s" by (simp add: new_game_eq)
  have e: "entry ?s = py ''1a''" by simp
  have l: "Some (int (length (str_strip test_env (py ''1a'')))) \<noteq> Some 5"
    by (simp add: strip_1a) (simp add: py_def)
  show ?thesis
    using check_word_order[OF r, of test_env] r l
    by (simp add: strip_1a not_alpha_1a)
qed

text \<open>
  C5: a submission in a running round that fails a check changes the warning label, to
  the message of the check that failed, in red, and nothing else: \<open>total_score\<close>,
  \<open>current_round\<close>, the required length, the timer and the registered callbacks
  are as before, so the round goes on and adds nothing to the score.
\<close>

theorem check_word_rejected_unchanged:
  assumes "timer_running s"
    and "\<not> (str_isalpha E (str_strip E (entry s))
            \<and> Some (int (length (str_strip E (entry s)))) = required_length s
            \<and> is_valid_word E (str_strip E (entry s)))"
  shows "check_word E s =
           Inr (s\<lparr>warning_text :=
                    (if \<not> str_isalpha E (str_strip E (entry s))
                     then py ''Please enter only alphabetic characters.''
                     else if Some (int (length (str_strip E (entry s)))) \<noteq> required_length s
                     then py ''Word must be exactly '' @ opt_int_str (required_length s)
                            @ py '' letters long.''
                     else py ''The word is not in the dictionary.''),
                  warning_fg := Red\<rparr>)"
  using assms
  by (auto simp add: check_word_not_alpha check_word_wrong_length check_word_not_in_dictionary
        show_warning_def)

theorem check_word_rejected_unchanged_witness:
  "check_word test_env ((new_game 5)\<lparr>entry := py ''hi''\<rparr>)
     = Inr ((new_game 5)\<lparr>entry := py ''hi'',
                          warning_text := py ''Word must be exactly 5 letters long.'',
                          warning_fg := Red\<rparr>)
   \<and> map_sum id total_score (check_word test_env ((new_game 5)\<lparr>entry := py ''hi''\<rparr>))
     = Inr (total_score (new_game 5))
   \<and> map_sum id current_round (check_word test_env ((new_game 5)\<lparr>entry := py ''hi''\<rparr>))
     = Inr (current_round (new_game 5))"
proof -
  let ?s = "(new_game 5)\<lparr>entry := py ''hi''\<rparr>"
  have r: "timer_running ?s" by (simp add: new_game_eq)
  have l: "\<not> (str_isalpha test_env (str_strip test_env (entry ?s))
            \<and> Some (int (length (str_strip test_env (entry ?s)))) = required_length ?s
            \<and> is_valid_word test_env (str_strip test_env (entry ?s)))"
    by (simp add: strip_hi new_game_eq) (simp add: py_def)
  have m: "py ''Word must be exactly '' @ opt_int_str (Some 5) @ py '' letters long.''
           = py ''Word must be exactly 5 letters long.''"
    by (simp add: py_def opt_int_str_def int_str_def nat_str.simps)
  have q: "required_length ?s = Some 5" by (simp add: new_game_eq)
  have ln: "Some (int (length (py ''hi''))) \<noteq> Some 5" by (simp add: py_def)
  show ?thesis
    using check_word_rejected_unchanged[OF r l] m q ln
    by (simp add: strip_hi alpha_hi)
qed

text \<open>
  C10: the checks and the score see the entry's text only through \<open>strip()\<close>: a
  submission has the outcome of the submission of its stripped text, and an entry that is
  a word between two runs of whitespace strips to what the word strips to and has the
  outcome of the word alone (the entry itself keeps its text). So a valid word with
  whitespace around it is accepted and scored as the word.
\<close>

theorem check_word_strips_entry:
  "check_word E s
     = map_sum id (\<lambda>s'. s'\<lparr>entry := entry s\<rparr>) (check_word E (s\<lparr>entry := str_strip E (entry s)\<rparr>))
   \<and> ((\<forall>c \<in> set pre. char_isspace E c) \<and> (\<forall>c \<in> set post. char_isspace E c) \<longrightarrow>
        str_strip E (pre @ w @ post) = str_strip E w
        \<and> check_word E (s\<lparr>entry := pre @ w @ post\<rparr>)
            = map_sum id (\<lambda>s'. s'\<lparr>entry := pre @ w @ post\<rparr>) (check_word E (s\<lparr>entry := w\<rparr>)))"
proof (intro conjI impI)
  have "str_strip E (entry s) = str_strip E (str_strip E (entry s))"
    by (simp only: str_strip_idem)
  from check_word_entry[OF this, of s]
  show "check_word E s
     = map_sum id (\<lambda>s'. s'\<lparr>entry := entry s\<rparr>) (check_word E (s\<lparr>entry := str_strip E (entry s)\<rparr>))"
    by simp
next
  assume "(\<forall>c \<in> set pre. char_isspace E c) \<and> (\<forall>c \<in> set post. char_isspace E c)"
  then show "str_strip E (pre @ w @ post) = str_strip E w"
    by (simp add: str_strip_surround)
next
  assume "(\<forall>c \<in> set pre. char_isspace E c) \<and> (\<forall>c \<in> set post. char_isspace E c)"
  then have "str_strip E (pre @ w @ post) = str_strip E w"
    by (simp add: str_strip_surround)
  then show "check_word E (s\<lparr>entry := pre @ w @ post\<rparr>)
            = map_sum id (\<lambda>s'. s'\<lparr>entry := pre @ w @ post\<rparr>) (check_word E (s\<lparr>entry := w\<rparr>))"
    by (rule check_word_entry)
qed

theorem check_word_strips_entry_witness:
  "check_word test_env ((new_game 7)\<lparr>entry := py ''  cabbage ''\<rparr>)
   = Inr ((new_game 7)\<lparr>entry := py ''  cabbage '',
                        total_score := 34, score_label := py ''Score: 34'',
                        warning_text := py ''Score: 14 (Bonus: 20)'', warning_fg := Green,
                        after_queue := [(2000, Start_Round)]\<rparr>)"
proof -
  let ?s = "(new_game 7)\<lparr>entry := py ''cabbage''\<rparr>"
  have sp: "\<forall>c \<in> set (py ''  ''). char_isspace test_env c" "\<forall>c \<in> set (py '' ''). char_isspace test_env c"
    by (simp_all add: py_def char_isspace_def ascii_isspace_def)
  have e: "py ''  cabbage '' = py ''  '' @ py ''cabbage'' @ py '' ''"
    by (simp add: py_def)
  have t: "py ''Score: '' @ int_str 34 = py ''Score: 34''"
    by (simp add: py_def int_str_def nat_str.simps)
  have "label_remaining test_env (timer_label ?s) = Inr 15"
    using label_remaining_timer_text[of test_env 15] by (simp add: new_game_eq)
  then have "check_word test_env ?s =
     Inr (?s\<lparr>total_score := total_score ?s + (14 + calculate_time_bonus (15 - 15)),
            score_label :=
              py ''Score: '' @ int_str (total_score ?s + (14 + calculate_time_bonus (15 - 15))),
            warning_text :=
              py ''Score: '' @ int_str 14
                @ py '' (Bonus: '' @ int_str (calculate_time_bonus (15 - 15)) @ py '')'',
            warning_fg := Green,
            after_queue := after_queue ?s @ [(2000, Start_Round)]\<rparr>)"
    by (intro check_word_cabbage) (simp_all add: new_game_eq strip_cabbage spell_test_env)
  then have "check_word test_env ?s =
     Inr (?s\<lparr>total_score := 34, score_label := py ''Score: 34'',
            warning_text := py ''Score: 14 (Bonus: 20)'', warning_fg := Green,
            after_queue := [(2000, Start_Round)]\<rparr>)"
    by (simp add: new_game_eq calculate_time_bonus_def score_text_14_20 t)
  moreover have "check_word test_env ((new_game 7)\<lparr>entry := py ''  '' @ py ''cabbage'' @ py '' ''\<rparr>)
      = map_sum id (\<lambda>s'. s'\<lparr>entry := py ''  '' @ py ''cabbage'' @ py '' ''\<rparr>)
          (check_word test_env ?s)"
    using check_word_strips_entry[where E = test_env and s = "new_game 7" and pre = "py ''  ''"
        and post = "py '' ''" and w = "py ''cabbage''"] sp
    by blast
  ultimately show ?thesis
    by (simp add: e)
qed

section \<open>Submissions and the timer\<close>

text \<open>
  C6: \<open>check_word\<close> after the countdown has run out, and after the end screen is up.
  In both sample runs \<open>timer_running\<close> is still set, as nothing ever clears it, and the
  submission is scored: 19 points on the game whose time is up, 34 more on the finished
  game of 340 points. With the flag cleared, the guard at the head of \<open>check_word\<close>
  would have dropped the submission of the first run.
\<close>

theorem check_word_after_timer_end:
  "timer_thread expired_game = Some Finished
   \<and> warning_text expired_game = py ''Time's up!''
   \<and> timer_label expired_game = py ''Time remaining: 0 seconds''
   \<and> timer_running expired_game = True
   \<and> total_score expired_game = 0
   \<and> map_sum id total_score (check_word test_env (expired_game\<lparr>entry := py ''cabbage''\<rparr>)) = Inr 19
   \<and> check_word test_env (expired_game\<lparr>entry := py ''cabbage'', timer_running := False\<rparr>)
       = Inr (expired_game\<lparr>entry := py ''cabbage'', timer_running := False\<rparr>)
   \<and> final_score_label game_over_game = Some (py ''Total Score: 340'')
   \<and> current_round game_over_game = max_rounds game_over_game
   \<and> timer_running game_over_game = True
   \<and> total_score game_over_game = 340
   \<and> map_sum id total_score (check_word test_env game_over_game) = Inr 374"
proof -
  let ?e = "expired_game\<lparr>entry := py ''cabbage''\<rparr>"
  have t0: "timer_text 0 = py ''Time remaining: 0 seconds''"
    by (simp add: timer_text_def py_def nat_str.simps)
  have "label_remaining test_env (timer_label ?e) = Inr 0"
    using label_remaining_timer_text[of test_env 0] by (simp add: expired_game_eq)
  then have "check_word test_env ?e =
     Inr (?e\<lparr>total_score := total_score ?e + (14 + calculate_time_bonus (15 - 0)),
            score_label :=
              py ''Score: '' @ int_str (total_score ?e + (14 + calculate_time_bonus (15 - 0))),
            warning_text :=
              py ''Score: '' @ int_str 14
                @ py '' (Bonus: '' @ int_str (calculate_time_bonus (15 - 0)) @ py '')'',
            warning_fg := Green,
            after_queue := after_queue ?e @ [(2000, Start_Round)]\<rparr>)"
    by (intro check_word_cabbage) (simp_all add: expired_game_eq new_game_eq strip_cabbage spell_test_env)
  then have 1: "map_sum id total_score (check_word test_env ?e) = Inr 19"
    by (simp add: expired_game_eq new_game_eq calculate_time_bonus_def)
  note g = game_over_game_eq
  have "label_remaining test_env (timer_label game_over_game) = Inr 15"
    using label_remaining_timer_text[of test_env 15] g by simp
  then have "check_word test_env game_over_game =
     Inr (game_over_game\<lparr>total_score := total_score game_over_game + (14 + calculate_time_bonus (15 - 15)),
            score_label :=
              py ''Score: '' @ int_str (total_score game_over_game + (14 + calculate_time_bonus (15 - 15))),
            warning_text :=
              py ''Score: '' @ int_str 14
                @ py '' (Bonus: '' @ int_str (calculate_time_bonus (15 - 15)) @ py '')'',
            warning_fg := Green,
            after_queue := after_queue game_over_game @ [(2000, Start_Round)]\<rparr>)"
    using g by (intro check_word_cabbage) (simp_all add: strip_cabbage spell_test_env)
  then have 2: "map_sum id total_score (check_word test_env game_over_game) = Inr 374"
    using g by (simp add: calculate_time_bonus_def)
  have 3: "check_word test_env (expired_game\<lparr>entry := py ''cabbage'', timer_running := False\<rparr>)
       = Inr (expired_game\<lparr>entry := py ''cabbage'', timer_running := False\<rparr>)"
    by (rule check_word_not_running) simp
  show ?thesis using 1 2 3 g by (simp add: expired_game_eq new_game_eq t0)
qed

text \<open>
  C7: an accepted submission does not cancel the timer. In a fresh game with 2 seconds
  on the label, \<open>cabbage\<close> is accepted and reported, but the stop event stays unset
  and the timer thread stays in its loop: it counts down to 1, then reports the time-up
  over the score report and registers a second \<open>start_round\<close> beside the one the
  submission registered. Once both have run the game of round 1 stands in round 3. In
  the last round no \<open>start_timer\<close> follows at all: on the end screen after ten won
  rounds the stop event is unset and the last timer is still counting.
\<close>

theorem check_word_timer_not_cancelled:
  "timer_label late_game = py ''Time remaining: 2 seconds''
   \<and> current_round late_game = 1
   \<and> check_word test_env (late_game\<lparr>entry := py ''cabbage''\<rparr>) = Inr late_win
   \<and> warning_text late_win = py ''Score: 14 (Bonus: 5)''
   \<and> stop_event late_win = False
   \<and> timer_thread late_win = Some (Iter 1)
   \<and> after_queue late_win = [(2000, Start_Round)]
   \<and> timer_label (tick late_win) = py ''Time remaining: 1 seconds''
   \<and> warning_text ((tick ^^ 2) late_win) = py ''Time's up!''
   \<and> after_queue ((tick ^^ 2) late_win) = [(2000, Start_Round), (1000, Start_Round)]
   \<and> current_round (run_after 0 4 (run_after 0 5 ((tick ^^ 2) late_win))) = 3
   \<and> final_score_label game_over_game = Some (py ''Total Score: 340'')
   \<and> stop_event game_over_game = False
   \<and> timer_thread game_over_game = Some (Iter 15)"
proof -
  have t2: "timer_text 2 = py ''Time remaining: 2 seconds''"
    and t1: "timer_text 1 = py ''Time remaining: 1 seconds''"
    by (simp_all add: timer_text_def py_def nat_str.simps)
  have f1: "timer_label late_game = py ''Time remaining: 2 seconds''"
    by (simp add: late_game_eq t2)
  have f2: "current_round late_game = 1"
    by (simp add: late_game_eq new_game_eq)
  have l: "label_remaining test_env (timer_label (late_game\<lparr>entry := py ''cabbage''\<rparr>)) = Inr 2"
    using label_remaining_timer_text[of test_env 2] by (simp add: late_game_eq)
  have f3: "check_word test_env (late_game\<lparr>entry := py ''cabbage''\<rparr>) = Inr late_win"
    unfolding late_win_eq
    using check_word_cabbage[OF _ _ _ spell_test_env l]
    by (simp add: late_game_eq new_game_eq strip_cabbage calculate_time_bonus_def score_text_14_5)
  have f4: "warning_text late_win = py ''Score: 14 (Bonus: 5)''"
    and f5: "stop_event late_win = False"
    and f6: "timer_thread late_win = Some (Iter 1)"
    and f7: "after_queue late_win = [(2000, Start_Round)]"
    by (simp_all add: late_win_eq new_game_eq)
  have "tick late_win = late_win\<lparr>timer_thread := Some Post, timer_label := timer_text 1\<rparr>"
    using tick_iter[of late_win 1] f5 f6 by simp
  moreover have "timer_text (Suc 0) = py ''Time remaining: 1 seconds''"
    using t1 by simp
  ultimately have f8: "timer_label (tick late_win) = py ''Time remaining: 1 seconds''"
    by simp
  have f9: "warning_text ((tick ^^ 2) late_win) = py ''Time's up!''"
    and f10: "after_queue ((tick ^^ 2) late_win) = [(2000, Start_Round), (1000, Start_Round)]"
    by (simp_all add: late_win_expired)
  have f11: "current_round (run_after 0 4 (run_after 0 5 ((tick ^^ 2) late_win))) = 3"
    unfolding late_win_expired
    by (simp add: run_after_def run_callback_def start_round_next late_win_eq new_game_eq)
  have f12: "final_score_label game_over_game = Some (py ''Total Score: 340'')"
    using game_over_game_eq by simp
  have f13: "stop_event game_over_game = False"
    and f14: "timer_thread game_over_game = Some (Iter 15)"
    using game_over_game_timer by simp_all
  show ?thesis
    by (intro conjI) fact+
qed

text \<open>
  C8: \<open>reset_game\<close> on a game of at least two rounds. The scores are zeroed, but
  \<open>start_round\<close> runs twice, once at the end of \<open>setup_gui\<close> and once more after it, so
  the game stands in round 2 with the length drawn second.
\<close>

theorem reset_game_round:
  assumes "2 \<le> max_rounds s"
  shows "current_round (reset_game drawn1 drawn2 s) = 2
       \<and> round_label (reset_game drawn1 drawn2 s) = round_text 2 (max_rounds s)
       \<and> required_length (reset_game drawn1 drawn2 s) = Some drawn2
       \<and> total_score (reset_game drawn1 drawn2 s) = 0"
  using assms by (simp add: reset_game_def setup_gui_def start_round_next)

theorem reset_game_round_witness:
  "current_round (reset_game 3 4 (new_game 7)) = 2
   \<and> round_label (reset_game 3 4 (new_game 7)) = py ''Round: 2/10''
   \<and> current_round (new_game 7) = 1"
proof -
  have m: "2 \<le> max_rounds (new_game 7)" "max_rounds (new_game 7) = 10" by (simp_all add: new_game_eq)
  have t: "round_text 2 10 = py ''Round: 2/10''"
    by (simp add: round_text_def py_def int_str_def nat_str.simps)
  show ?thesis using reset_game_round[OF m(1), of 3 4] m(2) t by (simp add: new_game_eq)
qed

end
